theory Spec2Isabelle
  imports Complex_Main "HOL-Library.Multiset" "HOL-Library.Sublist"
begin

section \<open>Python values, dictionaries and strings\<close>

text \<open>
  The retrieval core passes Python dictionaries around: the classification
  (\<open>Dict[str, Any]\<close>, parsed from JSON or built by the keyword fallback), the metadata
  filter, the metadata of a stored chunk. A dictionary is an association list in
  insertion order, read with \<open>dict_get\<close> and written with \<open>dict_set\<close>; the values of a
  classification are JSON-like values.
\<close>

datatype pyval =
    PNone
  | PBool bool
  | PInt int
  | PFloat real
  | PStr string
  | PList "pyval list"
  | PDict "(string \<times> pyval) list"

type_synonym pydict = "(string \<times> pyval) list"

text \<open>Metadata of a stored chunk: per \<open>METADATA_SCHEMA\<close> every value is a \<open>str\<close> or an \<open>int\<close>.\<close>

datatype mval = MStr string | MInt int

type_synonym metadata = "(string \<times> mval) list"

datatype error =
    StoreError string
  | IndexError
  | TypeError
  | AttributeError
  | ValueError string

definition dict_get :: "(string \<times> 'v) list \<Rightarrow> string \<Rightarrow> 'v option" where
  "dict_get d k = map_of d k"

fun dict_set :: "(string \<times> 'v) list \<Rightarrow> string \<Rightarrow> 'v \<Rightarrow> (string \<times> 'v) list" where
  "dict_set [] k v = [(k, v)]"
| "dict_set ((k', v') # d) k v = (if k' = k then (k, v) # d else (k', v') # dict_set d k v)"

text \<open>Python truthiness, as \<open>if x:\<close> tests it.\<close>

fun truthy :: "pyval \<Rightarrow> bool" where
  "truthy PNone = False"
| "truthy (PBool b) = b"
| "truthy (PInt i) = (i \<noteq> 0)"
| "truthy (PFloat r) = (r \<noteq> 0)"
| "truthy (PStr s) = (s \<noteq> [])"
| "truthy (PList xs) = (xs \<noteq> [])"
| "truthy (PDict d) = (d \<noteq> [])"

fun mtruthy :: "mval \<Rightarrow> bool" where
  "mtruthy (MStr s) = (s \<noteq> [])"
| "mtruthy (MInt i) = (i \<noteq> 0)"

text \<open>\<open>d.get(k)\<close> used as a condition: a missing key gives \<open>None\<close>, which is false.\<close>

definition get_truthy :: "pydict \<Rightarrow> string \<Rightarrow> bool" where
  "get_truthy d k = (case dict_get d k of None \<Rightarrow> False | Some v \<Rightarrow> truthy v)"

definition mget_truthy :: "metadata \<Rightarrow> string \<Rightarrow> bool" where
  "mget_truthy d k = (case dict_get d k of None \<Rightarrow> False | Some v \<Rightarrow> mtruthy v)"

section \<open>Collection configuration (config/collections.py)\<close>

definition COLLECTIONS :: "(string \<times> string) list" where
  "COLLECTIONS =
    [(''ib_general'', ''General IBDP programme information''),
     (''ia_guides'', ''Internal Assessment guides by subject''),
     (''ia_examples'', ''Example IAs with scores and feedback''),
     (''mark_schemes'', ''Mark schemes for past papers''),
     (''syllabus'', ''Subject syllabi and curriculum guides'')]"

definition DOC_TYPE_TO_COLLECTION :: "(string \<times> string) list" where
  "DOC_TYPE_TO_COLLECTION =
    [(''ia_guide'', ''ia_guides''),
     (''ia_example'', ''ia_examples''),
     (''mark_scheme'', ''mark_schemes''),
     (''syllabus'', ''syllabus''),
     (''general_info'', ''ib_general'')]"

section \<open>Collection routing (MultiAgentSystem._retrieve_context, lines 169-177)\<close>

text \<open>
  \<open>query_type = classification.get("query_type", "general_info")\<close> followed by the
  \<open>if/elif/else\<close> on it. A value that is not a string compares unequal to both literals.
\<close>

definition get_query_type :: "pydict \<Rightarrow> pyval" where
  "get_query_type classification =
     (case dict_get classification ''query_type'' of
        None \<Rightarrow> PStr ''general_info''
      | Some v \<Rightarrow> v)"

definition route_collections :: "pydict \<Rightarrow> string list" where
  "route_collections classification =
     (let query_type = get_query_type classification in
      if query_type = PStr ''ia_feedback'' then [''ia_guides'', ''ia_examples'']
      else if query_type = PStr ''exam_question'' then [''mark_schemes'', ''general_info'']
      else [''ib_general'', ''syllabus''])"


section \<open>Per-collection retrieval (core/retrieval.py, utils/chromadb_utils.py)\<close>

text \<open>
  The \<open>where\<close> argument handed to the store: \<open>{key: {"$eq": value}}\<close> or
  \<open>{"$and": [...]}\<close>.
\<close>

datatype where_clause = WEq string pyval | WAnd "where_clause list"

text \<open>
  What \<open>collection.query\<close> returns: for the one query text, the parallel lists of
  documents, metadatas and distances, each wrapped in an outer list.
\<close>

record query_result =
  documents :: "string list list"
  metadatas :: "metadata list list"
  distances :: "real list list"

text \<open>
  The document store is a parameter: a client maps a collection name to a collection or
  fails (\<open>client.get_collection\<close>), and a collection answers a query (text, result cap,
  optional \<open>where\<close>) or fails. Distances and relevances are Python floats; they are
  modelled by real numbers.
\<close>

type_synonym collection = "string \<Rightarrow> int \<Rightarrow> where_clause option \<Rightarrow> error + query_result"

type_synonym client = "string \<Rightarrow> error + collection"

record scored_doc =
  content :: string
  metadata :: metadata
  distance :: real
  relevance :: real

definition get_collection :: "client \<Rightarrow> string \<Rightarrow> error + collection" where
  "get_collection cl collection_name = cl collection_name"

text \<open>
  \<open>query_collection\<close> passes \<open>where\<close> on only when it is set and not empty; a clause built
  by \<open>retrieve_documents\<close> always has one top-level key.
\<close>

definition query_collection ::
  "collection \<Rightarrow> string \<Rightarrow> int \<Rightarrow> where_clause option \<Rightarrow> error + query_result" where
  "query_collection coll query_text n_results where_filter = coll query_text n_results where_filter"

text \<open>Lines 24-38 of \<open>retrieve_documents\<close>: the metadata filter in the store's format.\<close>

definition build_where_filter :: "pydict option \<Rightarrow> where_clause option" where
  "build_where_filter metadata_filter =
     (case metadata_filter of
        None \<Rightarrow> None
      | Some mf \<Rightarrow>
          if mf \<noteq> [] \<and> length mf > 0 then
            (if length mf > 1 then Some (WAnd (map (\<lambda>(key, val). WEq key val) mf))
             else (let (key, val) = hd mf in Some (WEq key val)))
          else None)"

text \<open>Lines 48-60: one scored document per triple of the zipped lists.\<close>

definition make_documents :: "string list \<Rightarrow> metadata list \<Rightarrow> real list \<Rightarrow> scored_doc list" where
  "make_documents docs mds dists =
     map (\<lambda>(doc, md, dist).
            \<lparr>content = doc, metadata = md, distance = dist, relevance = 1 - dist\<rparr>)
         (zip docs (zip mds dists))"

definition retrieve_documents ::
  "client \<Rightarrow> string \<Rightarrow> string \<Rightarrow> pydict option \<Rightarrow> int \<Rightarrow> error + scored_doc list" where
  "retrieve_documents cl collection_name query metadata_filter n_results =
     (case get_collection cl collection_name of
        Inl e \<Rightarrow> Inl e
      | Inr coll \<Rightarrow>
          (case query_collection coll query n_results (build_where_filter metadata_filter) of
             Inl e \<Rightarrow> Inl e
           | Inr results \<Rightarrow>
               if documents results \<noteq> [] \<and> hd (documents results) \<noteq> [] then
                 (case metadatas results of
                    [] \<Rightarrow> Inl IndexError
                  | mds # _ \<Rightarrow>
                      (case distances results of
                         [] \<Rightarrow> Inl IndexError
                       | dists # _ \<Rightarrow> Inr (make_documents (hd (documents results)) mds dists)))
               else Inr []))"

section \<open>Cross-collection merge (multi_collection_search)\<close>

text \<open>
  The loop over the collections, lines 94-107 (the same loop is inlined in
  \<open>MultiAgentSystem._retrieve_context\<close>, lines 180-194): an exception of
  \<open>retrieve_documents\<close> is caught and printed, and the loop goes on with the results
  gathered so far.
\<close>

fun search_loop ::
  "client \<Rightarrow> string list \<Rightarrow> string \<Rightarrow> pydict option \<Rightarrow> int \<Rightarrow> scored_doc list \<Rightarrow> scored_doc list" where
  "search_loop cl [] query mf n all_results = all_results"
| "search_loop cl (collection_name # rest) query mf n all_results =
     (case retrieve_documents cl collection_name query mf n of
        Inl e \<Rightarrow> search_loop cl rest query mf n all_results
      | Inr results \<Rightarrow> search_loop cl rest query mf n (all_results @ results))"

text \<open>
  \<open>all_results.sort(key=lambda x: x["relevance"], reverse=True)\<close>: Python's sort is
  stable, and with \<open>reverse=True\<close> elements with equal keys keep their original order.
\<close>

definition sort_by_relevance :: "scored_doc list \<Rightarrow> scored_doc list" where
  "sort_by_relevance all_results = sort_key (\<lambda>x. - relevance x) all_results"

definition multi_collection_search ::
  "client \<Rightarrow> string list \<Rightarrow> string \<Rightarrow> pydict option \<Rightarrow> int \<Rightarrow> scored_doc list" where
  "multi_collection_search cl collections query metadata_filter n_results_per_collection =
     sort_by_relevance (search_loop cl collections query metadata_filter n_results_per_collection [])"

section \<open>An in-memory store\<close>

text \<open>
  The store itself is outside the repository. To run the retriever on concrete data,
  a collection is given by its rows (content, metadata, distance to the query) in the
  store's ranking order; a query keeps the rows whose metadata satisfies the \<open>where\<close>
  clause and returns the first \<open>n_results\<close> of them. \<open>where_matches\<close> is the meaning of a
  clause: \<open>$eq\<close> holds when the key is present with that value, \<open>$and\<close> when every clause
  of the list holds.
\<close>

fun pyval_of_mval :: "mval \<Rightarrow> pyval" where
  "pyval_of_mval (MStr s) = PStr s"
| "pyval_of_mval (MInt i) = PInt i"

definition meta_has :: "metadata \<Rightarrow> string \<Rightarrow> pyval \<Rightarrow> bool" where
  "meta_has md key val =
     (case dict_get md key of None \<Rightarrow> False | Some mv \<Rightarrow> pyval_of_mval mv = val)"

fun where_matches :: "where_clause \<Rightarrow> metadata \<Rightarrow> bool" where
  "where_matches (WEq key val) md = meta_has md key val"
| "where_matches (WAnd ws) md = (\<forall>w \<in> set ws. where_matches w md)"

type_synonym row = "string \<times> metadata \<times> real"

definition mem_collection :: "row list \<Rightarrow> collection" where
  "mem_collection rows query_text n_results where_filter =
     (let kept = (case where_filter of
                    None \<Rightarrow> rows
                  | Some w \<Rightarrow> filter (\<lambda>(doc, md, dist). where_matches w md) rows);
          hits = take (nat n_results) kept
      in Inr \<lparr>documents = [map (\<lambda>(doc, md, dist). doc) hits],
              metadatas = [map (\<lambda>(doc, md, dist). md) hits],
              distances = [map (\<lambda>(doc, md, dist). dist) hits]\<rparr>)"

definition mem_client :: "(string \<times> row list) list \<Rightarrow> client" where
  "mem_client store collection_name =
     (case map_of store collection_name of
        None \<Rightarrow> Inl (StoreError collection_name)
      | Some rows \<Rightarrow> Inr (mem_collection rows))"

text \<open>A store honours \<open>where\<close> when every metadata it returns satisfies the clause.\<close>

definition honours_where :: "client \<Rightarrow> bool" where
  "honours_where cl =
     (\<forall>name coll q n w r. cl name = Inr coll \<longrightarrow> coll q n (Some w) = Inr r \<longrightarrow>
        (\<forall>mds \<in> set (metadatas r). \<forall>md \<in> set mds. where_matches w md))"


definition contribution :: "client \<Rightarrow> string \<Rightarrow> pydict option \<Rightarrow> int \<Rightarrow> string \<Rightarrow> scored_doc list" where
  "contribution cl query mf n collection_name =
     (case retrieve_documents cl collection_name query mf n of Inl e \<Rightarrow> [] | Inr results \<Rightarrow> results)"

section \<open>Strings: the built-in operations the code uses\<close>

text \<open>
  A \<open>string\<close> is a list of characters, a character being a code point below 256
  (Latin-1). \<open>str.lower\<close> maps \<open>A-Z\<close> and the accented capitals to their small letters;
  \<open>str.split()\<close> splits at runs of whitespace and drops empty tokens; \<open>sub in s\<close> is
  the substring test; \<open>s.split(sep)\<close> splits at every separator.
\<close>

definition nl :: string where
  "nl = [CHR 0x0A]"

definition lower_char :: "char \<Rightarrow> char" where
  "lower_char c =
     (let n = (of_char c :: nat) in
      if (65 \<le> n \<and> n \<le> 90) \<or> (192 \<le> n \<and> n \<le> 222 \<and> n \<noteq> 215)
      then char_of (n + 32) else c)"

definition lower :: "string \<Rightarrow> string" where
  "lower s = map lower_char s"

definition is_space :: "char \<Rightarrow> bool" where
  "is_space c =
     (let n = (of_char c :: nat) in
      (9 \<le> n \<and> n \<le> 13) \<or> (28 \<le> n \<and> n \<le> 32) \<or> n = 133 \<or> n = 160)"

fun split_aux :: "string \<Rightarrow> string \<Rightarrow> string list" where
  "split_aux [] cur = (if cur = [] then [] else [cur])"
| "split_aux (c # cs) cur =
     (if is_space c then (if cur = [] then split_aux cs [] else cur # split_aux cs [])
      else split_aux cs (cur @ [c]))"

definition split :: "string \<Rightarrow> string list" where
  "split s = split_aux s []"

fun split_on :: "char \<Rightarrow> string \<Rightarrow> string list" where
  "split_on sep [] = [[]]"
| "split_on sep (c # cs) =
     (if c = sep then [] # split_on sep cs
      else (case split_on sep cs of [] \<Rightarrow> [[c]] | w # ws \<Rightarrow> (c # w) # ws))"

fun py_in :: "string \<Rightarrow> string \<Rightarrow> bool" where
  "py_in sub [] = (sub = [])"
| "py_in sub (c # cs) = (prefix sub (c # cs) \<or> py_in sub cs)"

fun join :: "string \<Rightarrow> string list \<Rightarrow> string" where
  "join sep [] = []"
| "join sep [w] = w"
| "join sep (w # ws) = w @ sep @ join sep ws"

fun str_of_nat :: "nat \<Rightarrow> string" where
  "str_of_nat n =
     (if n < 10 then [char_of (48 + n)]
      else str_of_nat (n div 10) @ [char_of (48 + n mod 10)])"

declare str_of_nat.simps [simp del]

definition str_of_int :: "int \<Rightarrow> string" where
  "str_of_int i = (if i < 0 then ''-'' @ str_of_nat (nat (- i)) else str_of_nat (nat i))"

fun str_of_mval :: "mval \<Rightarrow> string" where
  "str_of_mval (MStr s) = s"
| "str_of_mval (MInt i) = str_of_int i"

text \<open>
  \<open>" ".join(v)\<close> for a value \<open>v\<close> of a classification: a list must hold strings only,
  a string is joined character by character, a dictionary by its keys; any other value
  is not iterable.
\<close>

fun unstr :: "pyval \<Rightarrow> string option" where
  "unstr (PStr s) = Some s"
| "unstr v = None"

fun join_val :: "string \<Rightarrow> pyval \<Rightarrow> error + string" where
  "join_val sep (PList xs) =
     (if list_all (\<lambda>x. unstr x \<noteq> None) xs then Inr (join sep (map (\<lambda>x. the (unstr x)) xs))
      else Inl TypeError)"
| "join_val sep (PStr s) = Inr (join sep (map (\<lambda>c. [c]) s))"
| "join_val sep (PDict d) = Inr (join sep (map fst d))"
| "join_val sep v = Inl TypeError"

section \<open>Context formatting\<close>

text \<open>
  Lines 76-79 of the tool and 215-217 of the orchestrator: content longer than 500
  characters is cut to its first 500 characters followed by \<open>...\<close>.
\<close>

definition truncate_content :: "string \<Rightarrow> string" where
  "truncate_content txt =
     (if length txt > 500 then take 500 txt @ ''...'' else txt)"

text \<open>
  \<open>metadata["source"].split("/")[-1]\<close> under \<open>if metadata.get("source")\<close>: a value
  that is true and not a string has no \<open>split\<close>.
\<close>

definition source_line :: "metadata \<Rightarrow> error + string" where
  "source_line md =
     (case dict_get md ''source'' of
        None \<Rightarrow> Inr []
      | Some v \<Rightarrow>
          if mtruthy v then
            (case v of
               MStr s \<Rightarrow> Inr (''Source: '' @ last (split_on (CHR ''/'') s) @ nl)
             | MInt i \<Rightarrow> Inl AttributeError)
          else Inr [])"

definition field_line :: "string \<Rightarrow> metadata \<Rightarrow> string \<Rightarrow> string" where
  "field_line label md key =
     (case dict_get md key of
        None \<Rightarrow> []
      | Some v \<Rightarrow> if mtruthy v then label @ '': '' @ str_of_mval v @ nl else [])"

text \<open>
  One entry of the tool's context (tools/context_retriever.py, lines 60-82). The
  two-decimal rendering \<open>{x:.2f}\<close> of a float is the parameter \<open>fmt\<close>.
\<close>

definition format_document :: "(real \<Rightarrow> string) \<Rightarrow> nat \<Rightarrow> scored_doc \<Rightarrow> error + string" where
  "format_document fmt i doc =
     (case (if metadata doc \<noteq> [] then source_line (metadata doc) else Inr []) of
        Inl e \<Rightarrow> Inl e
      | Inr src \<Rightarrow>
          Inr (''[Document '' @ str_of_nat (i + 1) @ '']'' @ nl
               @ src
               @ (if metadata doc \<noteq> [] then field_line ''Subject'' (metadata doc) ''subject'' else [])
               @ (if metadata doc \<noteq> [] then field_line ''Section'' (metadata doc) ''section'' else [])
               @ ''Content: '' @ truncate_content (content doc) @ nl
               @ ''Relevance: '' @ fmt (relevance doc) @ nl @ nl))"

fun format_loop :: "(real \<Rightarrow> string) \<Rightarrow> nat \<Rightarrow> scored_doc list \<Rightarrow> string \<Rightarrow> error + string" where
  "format_loop fmt i [] context_text = Inr context_text"
| "format_loop fmt i (doc # docs) context_text =
     (case format_document fmt i doc of
        Inl e \<Rightarrow> Inl e
      | Inr entry \<Rightarrow> format_loop fmt (i + 1) docs (context_text @ entry))"

text \<open>The entry of the orchestrator (agents/multi_agent_system_no_tools.py, lines 205-220).\<close>

definition format_document_no_tools :: "(real \<Rightarrow> string) \<Rightarrow> nat \<Rightarrow> scored_doc \<Rightarrow> error + string" where
  "format_document_no_tools fmt i doc =
     (case (if metadata doc \<noteq> [] then source_line (metadata doc) else Inr []) of
        Inl e \<Rightarrow> Inl e
      | Inr src \<Rightarrow>
          Inr (nl @ ''[Document '' @ str_of_nat (i + 1) @ '']'' @ nl
               @ src
               @ (if metadata doc \<noteq> [] then field_line ''Subject'' (metadata doc) ''subject'' else [])
               @ ''Content: '' @ truncate_content (content doc) @ nl
               @ ''Relevance: '' @ fmt (relevance doc) @ nl))"

fun format_loop_no_tools ::
  "(real \<Rightarrow> string) \<Rightarrow> nat \<Rightarrow> scored_doc list \<Rightarrow> string \<Rightarrow> error + string" where
  "format_loop_no_tools fmt i [] context = Inr context"
| "format_loop_no_tools fmt i (doc # docs) context =
     (case format_document_no_tools fmt i doc of
        Inl e \<Rightarrow> Inl e
      | Inr entry \<Rightarrow> format_loop_no_tools fmt (i + 1) docs (context @ entry))"

section \<open>The retrieve_context tool (tools/context_retriever.py)\<close>

definition opt_truthy :: "string option \<Rightarrow> bool" where
  "opt_truthy a = (case a of None \<Rightarrow> False | Some s \<Rightarrow> s \<noteq> [])"

text \<open>Lines 23-30: the filter holds the arguments that are set and not empty.\<close>

definition tool_filter :: "string option \<Rightarrow> string option \<Rightarrow> string option \<Rightarrow> pydict" where
  "tool_filter doc_type subject level =
     (let mf0 = [];
          mf1 = (if opt_truthy subject then dict_set mf0 ''subject'' (PStr (the subject)) else mf0);
          mf2 = (if opt_truthy level then dict_set mf1 ''level'' (PStr (the level)) else mf1);
          mf3 = (if opt_truthy doc_type then dict_set mf2 ''doc_type'' (PStr (the doc_type)) else mf2)
      in mf3)"

text \<open>Lines 32-52: one collection for a known document type, all five otherwise.\<close>

definition retrieve_context_results ::
  "client \<Rightarrow> string \<Rightarrow> string option \<Rightarrow> string option \<Rightarrow> string option \<Rightarrow> int
     \<Rightarrow> error + scored_doc list" where
  "retrieve_context_results cl query doc_type subject level n_results =
     (let metadata_filter = tool_filter doc_type subject level in
      if opt_truthy doc_type \<and> dict_get DOC_TYPE_TO_COLLECTION (the doc_type) \<noteq> None then
        retrieve_documents cl (the (dict_get DOC_TYPE_TO_COLLECTION (the doc_type))) query
          (Some metadata_filter) n_results
      else
        Inr (multi_collection_search cl (map snd DOC_TYPE_TO_COLLECTION) query
               (Some metadata_filter) 2))"

definition retrieve_context ::
  "client \<Rightarrow> (real \<Rightarrow> string) \<Rightarrow> string \<Rightarrow> string option \<Rightarrow> string option \<Rightarrow> string option \<Rightarrow> int
     \<Rightarrow> error + string" where
  "retrieve_context cl fmt query doc_type subject level n_results =
     (case retrieve_context_results cl query doc_type subject level n_results of
        Inl e \<Rightarrow> Inl e
      | Inr results \<Rightarrow>
          if results = [] then Inr ''No relevant documents found for the query.''
          else format_loop fmt 0 results (''RELEVANT CONTEXT:'' @ nl @ nl))"

section \<open>MultiAgentSystem._retrieve_context (agents/multi_agent_system_no_tools.py)\<close>

definition classification_filter :: "pydict \<Rightarrow> pydict" where
  "classification_filter classification =
     (let mf0 = [];
          mf1 = (if get_truthy classification ''subject''
                 then dict_set mf0 ''subject'' (the (dict_get classification ''subject'')) else mf0);
          mf2 = (if get_truthy classification ''level''
                 then dict_set mf1 ''level'' (the (dict_get classification ''level'')) else mf1)
      in mf2)"

definition search_query_of :: "string \<Rightarrow> pydict \<Rightarrow> error + string" where
  "search_query_of query classification =
     (case dict_get classification ''search_terms'' of
        None \<Rightarrow> Inr (join '' '' (take 5 (split query)))
      | Some v \<Rightarrow> join_val '' '' v)"

definition MultiAgentSystem_retrieve_context ::
  "client \<Rightarrow> (real \<Rightarrow> string) \<Rightarrow> string \<Rightarrow> pydict \<Rightarrow> error + string" where
  "MultiAgentSystem_retrieve_context cl fmt query classification =
     (let metadata_filter = classification_filter classification;
          collections = route_collections classification
      in case search_query_of query classification of
           Inl e \<Rightarrow> Inl e
         | Inr search_query \<Rightarrow>
             (let all_results =
                    search_loop cl collections search_query
                      (if metadata_filter \<noteq> [] then Some metadata_filter else None) 3 []
              in if all_results = [] then Inr ''No relevant documents found.''
                 else format_loop_no_tools fmt 0 (take 5 (sort_by_relevance all_results)) []))"

section \<open>Keyword fallback (MultiAgentSystem._fallback_classification)\<close>

definition fallback_classification :: "string \<Rightarrow> pydict" where
  "fallback_classification query =
     (let query_lower = lower query;
          c0 = [(''query_type'', PStr ''general_info''),
                (''subject'', PNone),
                (''level'', PNone),
                (''search_terms'', PList (map PStr (take 5 (split query))))];
          c1 = (if list_ex (\<lambda>term. py_in term query_lower) [''ia'', ''internal assessment'']
                then dict_set c0 ''query_type'' (PStr ''ia_feedback'')
                else if list_ex (\<lambda>term. py_in term query_lower)
                          [''exam'', ''question'', ''paper'', ''solve'']
                then dict_set c0 ''query_type'' (PStr ''exam_question'')
                else c0);
          c2 = (if py_in ''math'' query_lower then
                  (if py_in ''aa'' query_lower \<or> py_in ''analysis'' query_lower
                   then dict_set c1 ''subject'' (PStr ''Mathematics AA'')
                   else if py_in ''ai'' query_lower \<or> py_in ''applications'' query_lower
                   then dict_set c1 ''subject'' (PStr ''Mathematics AI'')
                   else dict_set c1 ''subject'' (PStr ''Mathematics AA''))
                else c1);
          c3 = (if py_in ''hl'' query_lower \<or> py_in ''higher level'' query_lower
                then dict_set c2 ''level'' (PStr ''HL'')
                else if py_in ''sl'' query_lower \<or> py_in ''standard level'' query_lower
                then dict_set c2 ''level'' (PStr ''SL'')
                else c2)
      in c3)"

section \<open>Example stores\<close>

definition store7 :: "(string \<times> row list) list" where
  "store7 = [(''syllabus'', [(''vectors'', [(''source'', MStr ''docs/math.pdf'')], 3/2),
                            (''calculus'', [], 1/4)])]"

definition store6 :: "(string \<times> row list) list" where
  "store6 = [(''mark_schemes'',
               [(''paper 1 scheme'', [(''subject'', MStr ''Physics''), (''level'', MStr ''SL'')], 1/10),
                (''paper 2 scheme'', [(''subject'', MStr ''Physics''), (''level'', MStr ''HL'')], 1/5),
                (''essay scheme'', [(''subject'', MStr ''History''), (''level'', MStr ''HL'')], 3/10)])]"

definition store4 :: "(string \<times> row list) list" where
  "store4 = [(''ia_guides'', [(''guide one'', [], 1/10), (''guide two'', [], 3/10)]),
             (''ia_examples'', [(''example one'', [], 1/5), (''example two'', [], 3/10)])]"

definition store5 :: "(string \<times> row list) list" where
  "store5 = [(''ia_examples'', [(''example one'', [], 2/5), (''example two'', [], 1/2)])]"

definition classification5 :: pydict where
  "classification5 = [(''query_type'', PStr ''ia_feedback''), (''search_terms'', PList [PStr ''write''])]"

definition store3 :: "(string \<times> row list) list" where
  "store3 = [(''ib_general'', [(''g1'', [], 1/10), (''g2'', [], 1/5)]),
             (''ia_guides'', [(''a1'', [], 1/10), (''a2'', [], 1/5)]),
             (''ia_examples'', [(''e1'', [], 1/10), (''e2'', [], 1/5)]),
             (''mark_schemes'', [(''m1'', [], 1/10), (''m2'', [], 1/5)]),
             (''syllabus'', [(''s1'', [], 1/10), (''s2'', [], 1/5)])]"

text \<open>A store whose collections all exist and whose every query raises.\<close>

definition qfail_client :: client where
  "qfail_client collection_name =
     Inr (\<lambda>query_text n_results where_filter. Inl (StoreError collection_name))"

text \<open>A two-decimal rendering, given on the two relevances of \<open>store5\<close>.\<close>

definition fmt5 :: "real \<Rightarrow> string" where
  "fmt5 r = (if r = 3/5 then ''0.60'' else ''0.50'')"


section \<open>Properties of the collection router\<close>

text \<open>
  C1. The router is defined on every classification and never returns the empty list:
  \<open>ia_feedback\<close> gives \<open>[ia_guides, ia_examples]\<close>, \<open>exam_question\<close> gives
  \<open>[mark_schemes, general_info]\<close>, and every other value of \<open>query_type\<close> (a missing
  key, an unknown string, a value that is not a string) gives \<open>[ib_general, syllabus]\<close>,
  the list of the \<open>general_info\<close> row.
\<close>

theorem route_collections_total:
  "(get_query_type c = PStr ''ia_feedback'' \<longrightarrow>
      route_collections c = [''ia_guides'', ''ia_examples''])
   \<and> (get_query_type c = PStr ''exam_question'' \<longrightarrow>
      route_collections c = [''mark_schemes'', ''general_info''])
   \<and> (get_query_type c \<noteq> PStr ''ia_feedback'' \<and> get_query_type c \<noteq> PStr ''exam_question'' \<longrightarrow>
      route_collections c = [''ib_general'', ''syllabus'']
      \<and> route_collections c = route_collections [(''query_type'', PStr ''general_info'')])
   \<and> (dict_get c ''query_type'' = None \<longrightarrow>
      route_collections c = route_collections [(''query_type'', PStr ''general_info'')])
   \<and> route_collections c \<noteq> []"
  by (simp add: route_collections_def get_query_type_def dict_get_def Let_def)

theorem route_collections_total_witness:
  "route_collections [(''query_type'', PStr ''ia_feedback''), (''subject'', PNone)]
     = [''ia_guides'', ''ia_examples'']
   \<and> route_collections [(''query_type'', PStr ''exam_question'')]
     = [''mark_schemes'', ''general_info'']
   \<and> route_collections [(''query_type'', PStr ''past_paper'')] = [''ib_general'', ''syllabus'']
   \<and> route_collections [(''query_type'', PInt 3)] = [''ib_general'', ''syllabus'']
   \<and> route_collections [(''subject'', PStr ''Physics'')]
     = route_collections [(''query_type'', PStr ''general_info'')]"
  using route_collections_total [of "[(''query_type'', PStr ''ia_feedback''), (''subject'', PNone)]"]
        route_collections_total [of "[(''query_type'', PStr ''exam_question'')]"]
        route_collections_total [of "[(''query_type'', PStr ''past_paper'')]"]
        route_collections_total [of "[(''query_type'', PInt 3)]"]
        route_collections_total [of "[(''subject'', PStr ''Physics'')]"]
        route_collections_total [of "[(''query_type'', PStr ''general_info'')]"]
  by (simp add: get_query_type_def dict_get_def)

text \<open>
  C2. The registry of collections is the key set of \<open>COLLECTIONS\<close>. On an
  \<open>exam_question\<close> classification the router emits \<open>general_info\<close>, which is a document
  type (a key of \<open>DOC_TYPE_TO_COLLECTION\<close>, mapped to \<open>ib_general\<close>) and not a registered
  collection.
\<close>

theorem route_collections_exam_question_unregistered:
  "route_collections [(''query_type'', PStr ''exam_question'')] = [''mark_schemes'', ''general_info'']
   \<and> ''general_info'' \<notin> set (map fst COLLECTIONS)
   \<and> dict_get DOC_TYPE_TO_COLLECTION ''general_info'' = Some ''ib_general''
   \<and> \<not> set (route_collections [(''query_type'', PStr ''exam_question'')]) \<subseteq> set (map fst COLLECTIONS)"
  by (simp add: route_collections_def get_query_type_def dict_get_def Let_def
      COLLECTIONS_def DOC_TYPE_TO_COLLECTION_def)

lemma make_documents_simps:
  "make_documents [] mds dists = []"
  "make_documents docs [] dists = []"
  "make_documents docs mds [] = []"
  "make_documents (doc # docs) (md # mds) (dv # dists) =
     \<lparr>content = doc, metadata = md, distance = dv, relevance = 1 - dv\<rparr>
       # make_documents docs mds dists"
  by (simp_all add: make_documents_def)

lemma make_documents_relevance:
  "list_all (\<lambda>d. relevance d = 1 - distance d) (make_documents docs mds dists)"
  by (simp add: make_documents_def list_all_iff case_prod_unfold)

lemma make_documents_distance_prefix:
  "map distance (make_documents docs mds dists)
     = take (length (make_documents docs mds dists)) dists"
proof (induction docs arbitrary: mds dists)
  case Nil
  show ?case by (simp add: make_documents_simps)
next
  case (Cons doc docs)
  show ?case
  proof (cases mds)
    case Nil
    then show ?thesis by (simp add: make_documents_simps)
  next
    case mds: (Cons md mds')
    show ?thesis
    proof (cases dists)
      case Nil
      then show ?thesis by (simp add: make_documents_simps)
    next
      case (Cons dv dists')
      with mds Cons.IH [of mds' dists'] show ?thesis
        by (simp add: make_documents_simps)
    qed
  qed
qed

lemma make_documents_metadata:
  "d \<in> set (make_documents docs mds dists) \<Longrightarrow> metadata d \<in> set mds"
proof (induction docs arbitrary: mds dists)
  case Nil
  then show ?case by (simp add: make_documents_simps)
next
  case (Cons doc docs)
  show ?case
  proof (cases mds)
    case Nil
    with Cons.prems show ?thesis by (simp add: make_documents_simps)
  next
    case mds: (Cons md mds')
    show ?thesis
    proof (cases dists)
      case Nil
      with Cons.prems show ?thesis by (simp add: make_documents_simps)
    next
      case (Cons dv dists')
      with mds Cons.prems Cons.IH [of mds' dists'] show ?thesis
        by (auto simp: make_documents_simps)
    qed
  qed
qed

lemma retrieve_documents_cases:
  assumes "retrieve_documents cl name q mf n = Inr docs"
  obtains coll r where "cl name = Inr coll" "coll q n (build_where_filter mf) = Inr r"
    "docs = [] \<or> (\<exists>mds ms dists ds. metadatas r = mds # ms \<and> distances r = dists # ds
        \<and> docs = make_documents (hd (documents r)) mds dists)"
  using assms
  by (auto simp: retrieve_documents_def get_collection_def query_collection_def
      split: sum.splits if_splits list.splits)

text \<open>
  C7. Every document that \<open>retrieve_documents\<close> returns has
  \<open>relevance = 1 - distance\<close>, and the distances are the store's own, in the store's
  order, whatever their range: nothing is clamped.
\<close>
theorem retrieve_documents_relevance:
  assumes "retrieve_documents cl name q mf n = Inr docs"
  shows "list_all (\<lambda>d. relevance d = 1 - distance d) docs
    \<and> (\<exists>coll r. cl name = Inr coll \<and> coll q n (build_where_filter mf) = Inr r
          \<and> map distance docs = take (length docs) (hd (distances r)))"
proof -
  from assms obtain coll r where c: "cl name = Inr coll" "coll q n (build_where_filter mf) = Inr r"
    and d: "docs = [] \<or> (\<exists>mds ms dists ds. metadatas r = mds # ms \<and> distances r = dists # ds
        \<and> docs = make_documents (hd (documents r)) mds dists)"
    by (rule retrieve_documents_cases)
  from d have "list_all (\<lambda>d. relevance d = 1 - distance d) docs"
    by (auto simp: make_documents_relevance)
  moreover from d have "map distance docs = take (length docs) (hd (distances r))"
    by (auto simp: make_documents_distance_prefix)
  ultimately show ?thesis using c by blast
qed

theorem retrieve_documents_relevance_witness:
  "retrieve_documents (mem_client store7) ''syllabus'' ''vectors'' None 5
     = Inr [\<lparr>content = ''vectors'', metadata = [(''source'', MStr ''docs/math.pdf'')],
              distance = 3/2, relevance = - 1/2\<rparr>,
            \<lparr>content = ''calculus'', metadata = [], distance = 1/4, relevance = 3/4\<rparr>]
   \<and> list_all (\<lambda>d. relevance d = 1 - distance d)
        [\<lparr>content = ''vectors'', metadata = [(''source'', MStr ''docs/math.pdf'')],
              distance = 3/2, relevance = - 1/2\<rparr>,
         \<lparr>content = ''calculus'', metadata = [], distance = 1/4, relevance = 3/4\<rparr>]"
proof -
  have e: "retrieve_documents (mem_client store7) ''syllabus'' ''vectors'' None 5
     = Inr [\<lparr>content = ''vectors'', metadata = [(''source'', MStr ''docs/math.pdf'')],
              distance = 3/2, relevance = - 1/2\<rparr>,
            \<lparr>content = ''calculus'', metadata = [], distance = 1/4, relevance = 3/4\<rparr>]"
    by (simp add: retrieve_documents_def get_collection_def query_collection_def mem_client_def
        mem_collection_def store7_def build_where_filter_def make_documents_def)
  show ?thesis using retrieve_documents_relevance [OF e] e by simp
qed

lemma where_matches_And_Eq:
  "where_matches (WAnd (map (\<lambda>(key, val). WEq key val) mf)) md
     = (\<forall>(key, val) \<in> set mf. meta_has md key val)"
  by auto

lemma build_where_filter_many:
  "length mf \<ge> 2 \<Longrightarrow>
     build_where_filter (Some mf) = Some (WAnd (map (\<lambda>(key, val). WEq key val) mf))"
  by (cases mf) (auto simp: build_where_filter_def)

lemma build_where_filter_single:
  "build_where_filter (Some [(key, val)]) = Some (WEq key val)"
  by (simp add: build_where_filter_def)

lemma build_where_filter_matches:
  assumes "mf \<noteq> []"
  shows "\<exists>w. build_where_filter (Some mf) = Some w
    \<and> (\<forall>md. where_matches w md = (\<forall>(key, val) \<in> set mf. meta_has md key val))"
proof (cases "length mf > 1")
  case True
  then have "build_where_filter (Some mf) = Some (WAnd (map (\<lambda>(key, val). WEq key val) mf))"
    by (simp add: build_where_filter_many)
  then show ?thesis using where_matches_And_Eq by blast
next
  case False
  with assms obtain key val where "mf = [(key, val)]"
    by (cases mf) auto
  then show ?thesis
    by (simp add: build_where_filter_single)
qed

lemma retrieve_documents_honours:
  assumes h: "honours_where cl"
    and r: "retrieve_documents cl name q (Some mf) n = Inr docs"
    and ne: "mf \<noteq> []"
    and d: "d \<in> set docs"
  shows "\<forall>(key, val) \<in> set mf. meta_has (metadata d) key val"
proof -
  from build_where_filter_matches [OF ne]
  obtain w where w: "build_where_filter (Some mf) = Some w"
    and m: "\<forall>md. where_matches w md = (\<forall>(key, val) \<in> set mf. meta_has md key val)"
    by blast
  from r obtain coll res where c: "cl name = Inr coll"
    and q: "coll q n (build_where_filter (Some mf)) = Inr res"
    and ds: "docs = [] \<or> (\<exists>mds ms dists ds. metadatas res = mds # ms \<and> distances res = dists # ds
        \<and> docs = make_documents (hd (documents res)) mds dists)"
    by (rule retrieve_documents_cases)
  from ds d obtain mds ms dists where mds: "metadatas res = mds # ms"
    and docs: "docs = make_documents (hd (documents res)) mds dists"
    by auto
  from d docs have "metadata d \<in> set mds"
    by (auto dest: make_documents_metadata)
  with h c q w mds have "where_matches w (metadata d)"
    unfolding honours_where_def by (metis list.set_intros(1))
  with m show ?thesis by simp
qed

text \<open>
  C6. A filter with two or more entries goes to the store as \<open>$and\<close> of one \<open>$eq\<close>
  clause per entry, a filter with one entry as that \<open>$eq\<close> clause alone. The \<open>$and\<close>
  clause holds of a metadata exactly when every entry of the filter holds of it, so on a
  store that honours \<open>where\<close> every returned document carries every key of the filter
  with the filter's value: a document that matches only some entries is not returned.
\<close>
theorem retrieve_documents_filter_conjunction:
  assumes "honours_where cl"
    and "retrieve_documents cl name q (Some mf) n = Inr docs"
    and "mf \<noteq> []"
  shows "(length mf \<ge> 2 \<longrightarrow>
            build_where_filter (Some mf) = Some (WAnd (map (\<lambda>(key, val). WEq key val) mf)))
       \<and> (\<forall>key val. mf = [(key, val)] \<longrightarrow> build_where_filter (Some mf) = Some (WEq key val))
       \<and> (\<forall>md. where_matches (WAnd (map (\<lambda>(key, val). WEq key val) mf)) md
                 = (\<forall>(key, val) \<in> set mf. meta_has md key val))
       \<and> (\<forall>d \<in> set docs. \<forall>(key, val) \<in> set mf. meta_has (metadata d) key val)"
  using assms
  by (simp only: where_matches_And_Eq)
     (auto simp: build_where_filter_many build_where_filter_single
           dest: retrieve_documents_honours)

lemma mem_collection_honours:
  "mem_collection rows q n (Some w) = Inr r \<Longrightarrow> mds \<in> set (metadatas r) \<Longrightarrow> md \<in> set mds
     \<Longrightarrow> where_matches w md"
  by (auto simp: mem_collection_def Let_def dest!: in_set_takeD)

lemma mem_client_honours_where: "honours_where (mem_client store)"
  unfolding honours_where_def
  by (auto simp: mem_client_def split: option.splits dest: mem_collection_honours)

theorem retrieve_documents_filter_conjunction_witness:
  "retrieve_documents (mem_client store6) ''mark_schemes'' ''scheme''
      (Some [(''subject'', PStr ''Physics''), (''level'', PStr ''HL'')]) 5
     = Inr [\<lparr>content = ''paper 2 scheme'',
              metadata = [(''subject'', MStr ''Physics''), (''level'', MStr ''HL'')],
              distance = 1/5, relevance = 4/5\<rparr>]
   \<and> build_where_filter (Some [(''subject'', PStr ''Physics''), (''level'', PStr ''HL'')])
       = Some (WAnd [WEq ''subject'' (PStr ''Physics''), WEq ''level'' (PStr ''HL'')])
   \<and> meta_has [(''subject'', MStr ''Physics''), (''level'', MStr ''HL'')] ''level'' (PStr ''HL'')
   \<and> \<not> meta_has [(''subject'', MStr ''Physics''), (''level'', MStr ''SL'')] ''level'' (PStr ''HL'')"
proof -
  have h: "honours_where (mem_client store6)"
    by (rule mem_client_honours_where)
  have e: "retrieve_documents (mem_client store6) ''mark_schemes'' ''scheme''
      (Some [(''subject'', PStr ''Physics''), (''level'', PStr ''HL'')]) 5
     = Inr [\<lparr>content = ''paper 2 scheme'',
              metadata = [(''subject'', MStr ''Physics''), (''level'', MStr ''HL'')],
              distance = 1/5, relevance = 4/5\<rparr>]"
    by (simp add: retrieve_documents_def get_collection_def query_collection_def mem_client_def
        mem_collection_def store6_def build_where_filter_def make_documents_def meta_has_def
        dict_get_def)
  have n: "[(''subject'', PStr ''Physics''), (''level'', PStr ''HL'')] \<noteq> []"
    by simp
  show ?thesis
    using retrieve_documents_filter_conjunction [OF h e n] e
    by (simp add: meta_has_def dict_get_def)
qed

lemma search_loop_acc:
  "search_loop cl cs q mf n acc = acc @ concat (map (contribution cl q mf n) cs)"
  by (induction cs arbitrary: acc) (auto simp: contribution_def split: sum.splits)

lemma multi_collection_search_concat:
  "multi_collection_search cl cs q mf n
     = sort_by_relevance (concat (map (contribution cl q mf n) cs))"
  by (simp add: multi_collection_search_def search_loop_acc)

lemma sort_by_relevance_descending:
  "sorted_wrt (\<lambda>x y. relevance y \<le> relevance x) (sort_by_relevance xs)"
proof -
  have "sorted (map (\<lambda>x. - relevance x) (sort_by_relevance xs))"
    unfolding sort_by_relevance_def by (rule sorted_sort_key)
  then show ?thesis by (simp add: sorted_map)
qed

lemma sort_by_relevance_stable:
  "filter (\<lambda>d. relevance d = r) (sort_by_relevance xs) = filter (\<lambda>d. relevance d = r) xs"
proof -
  have "filter (\<lambda>d. - relevance d = - r) (sort_key (\<lambda>x. - relevance x) xs)
          = filter (\<lambda>d. - relevance d = - r) xs"
    by (rule sort_key_stable)
  then show ?thesis by (simp add: sort_by_relevance_def)
qed

lemma mset_sort_by_relevance: "mset (sort_by_relevance xs) = mset xs"
  by (simp add: sort_by_relevance_def)

lemma relevance_sort_by_relevance:
  "map (\<lambda>x. - relevance x) (sort_by_relevance xs) = sort (map (\<lambda>x. - relevance x) xs)"
  unfolding sort_by_relevance_def
  by (rule properties_for_sort [symmetric]) (simp_all add: sorted_sort_key)

lemma sort_by_relevance_scores_perm:
  assumes "mset xs = mset ys"
  shows "map relevance (sort_by_relevance xs) = map relevance (sort_by_relevance ys)"
proof -
  from assms have "mset (map (\<lambda>x. - relevance x) xs) = mset (map (\<lambda>x. - relevance x) ys)"
    by simp
  then have "sort (map (\<lambda>x. - relevance x) xs) = sort (map (\<lambda>x. - relevance x) ys)"
    by (metis properties_for_sort mset_sort sorted_sort)
  then have "map (\<lambda>x. - relevance x) (sort_by_relevance xs)
           = map (\<lambda>x. - relevance x) (sort_by_relevance ys)"
    by (simp only: relevance_sort_by_relevance)
  then have "map uminus (map (\<lambda>x. - relevance x) (sort_by_relevance xs))
           = map uminus (map (\<lambda>x. - relevance x) (sort_by_relevance ys))"
    by simp
  then show ?thesis by (simp add: comp_def)
qed

lemma descending_last_least:
  assumes "sorted_wrt (\<lambda>x y. relevance y \<le> relevance x) xs" "d \<in> set xs"
  shows "relevance (last xs) \<le> relevance d"
  using assms by (induction xs) auto

lemma tie_at_cut:
  assumes sx: "sorted_wrt (\<lambda>x y. relevance y \<le> relevance x) xs"
    and sy: "sorted_wrt (\<lambda>x y. relevance y \<le> relevance x) ys"
    and m: "mset xs = mset ys"
    and r: "map relevance xs = map relevance ys"
    and dx: "d \<in> set (take k xs)"
    and dy: "d \<notin> set (take k ys)"
  shows "relevance d = relevance (last (take k ys))"
proof -
  from m have len: "length xs = length ys" by (rule mset_eq_length)
  from dx have kx: "0 < k \<and> xs \<noteq> []" by (cases k) auto
  then have ne: "take k xs \<noteq> []" by simp
  from kx len have ney: "take k ys \<noteq> []" by auto
  from dx have "d \<in> set xs" by (rule in_set_takeD)
  with m have "d \<in> set ys" by (metis set_mset_mset)
  moreover have "set ys = set (take k ys) \<union> set (drop k ys)"
    by (metis append_take_drop_id set_append)
  ultimately have dd: "d \<in> set (drop k ys)" using dy by blast
  from sy have "sorted_wrt (\<lambda>x y. relevance y \<le> relevance x) (take k ys @ drop k ys)" by simp
  then have "\<forall>x \<in> set (take k ys). \<forall>y \<in> set (drop k ys). relevance y \<le> relevance x"
    unfolding sorted_wrt_append by blast
  with dd ney have le: "relevance d \<le> relevance (last (take k ys))" by auto
  from sx have "sorted_wrt (\<lambda>x y. relevance y \<le> relevance x) (take k xs)"
    by (rule sorted_wrt_take)
  then have "relevance (last (take k xs)) \<le> relevance d"
    using dx by (rule descending_last_least)
  moreover have "relevance (last (take k xs)) = relevance (last (take k ys))"
  proof -
    from r have "map relevance (take k xs) = map relevance (take k ys)"
      by (simp add: take_map [symmetric])
    then have "last (map relevance (take k xs)) = last (map relevance (take k ys))" by simp
    with ne ney show ?thesis by (simp add: last_map)
  qed
  ultimately show ?thesis using le by simp
qed

text \<open>
  C4. The merge sorts the concatenated results by descending relevance and the sort is
  stable: documents with the same relevance stay in retrieval order. Merging \<open>[a, b]\<close>
  and \<open>[b, a]\<close> gives the same documents and, for every cut \<open>k\<close>, the same sequence of
  relevance scores in the first \<open>k\<close> places; a document that is among the first \<open>k\<close> of
  one merge and not of the other has exactly the relevance of the last place of the cut,
  so the two rankings differ only among documents with equal relevance.
\<close>
theorem multi_collection_search_order_independent:
  "sorted_wrt (\<lambda>x y. relevance y \<le> relevance x) (multi_collection_search cl cs q mf n)
   \<and> filter (\<lambda>d. relevance d = r) (multi_collection_search cl cs q mf n)
       = filter (\<lambda>d. relevance d = r) (search_loop cl cs q mf n [])
   \<and> mset (multi_collection_search cl [a, b] q mf n)
       = mset (multi_collection_search cl [b, a] q mf n)
   \<and> map relevance (take k (multi_collection_search cl [a, b] q mf n))
       = map relevance (take k (multi_collection_search cl [b, a] q mf n))
   \<and> (\<forall>d \<in> set (take k (multi_collection_search cl [a, b] q mf n))
              - set (take k (multi_collection_search cl [b, a] q mf n)).
         relevance d = relevance (last (take k (multi_collection_search cl [b, a] q mf n))))"
proof -
  let ?m1 = "multi_collection_search cl [a, b] q mf n"
  let ?m2 = "multi_collection_search cl [b, a] q mf n"
  have s: "\<And>cs. sorted_wrt (\<lambda>x y. relevance y \<le> relevance x) (multi_collection_search cl cs q mf n)"
    by (simp add: multi_collection_search_def sort_by_relevance_descending)
  have st: "filter (\<lambda>d. relevance d = r) (multi_collection_search cl cs q mf n)
       = filter (\<lambda>d. relevance d = r) (search_loop cl cs q mf n [])"
    by (simp add: multi_collection_search_def sort_by_relevance_stable)
  have p: "mset (search_loop cl [a, b] q mf n []) = mset (search_loop cl [b, a] q mf n [])"
    by (simp add: search_loop_acc)
  then have m: "mset ?m1 = mset ?m2"
    by (simp add: multi_collection_search_def mset_sort_by_relevance)
  from p have rel: "map relevance ?m1 = map relevance ?m2"
    unfolding multi_collection_search_def by (rule sort_by_relevance_scores_perm)
  then have relk: "map relevance (take k ?m1) = map relevance (take k ?m2)"
    by (simp add: take_map [symmetric])
  have tie: "\<forall>d \<in> set (take k ?m1) - set (take k ?m2).
      relevance d = relevance (last (take k ?m2))"
    using tie_at_cut [OF s s m rel] by blast
  from s st m relk tie show ?thesis by blast
qed

lemmas eval_retrieve =
  retrieve_documents_def get_collection_def query_collection_def mem_client_def
  mem_collection_def build_where_filter_def make_documents_def meta_has_def dict_get_def

lemma store4_guides:
  "retrieve_documents (mem_client store4) ''ia_guides'' q None 3
     = Inr [\<lparr>content = ''guide one'', metadata = [], distance = 1/10, relevance = 9/10\<rparr>,
            \<lparr>content = ''guide two'', metadata = [], distance = 3/10, relevance = 7/10\<rparr>]"
  by (simp add: eval_retrieve store4_def)

lemma store4_examples:
  "retrieve_documents (mem_client store4) ''ia_examples'' q None 3
     = Inr [\<lparr>content = ''example one'', metadata = [], distance = 1/5, relevance = 4/5\<rparr>,
            \<lparr>content = ''example two'', metadata = [], distance = 3/10, relevance = 7/10\<rparr>]"
  by (simp add: eval_retrieve store4_def)

lemma store4_merge_ab:
  "multi_collection_search (mem_client store4) [''ia_guides'', ''ia_examples''] q None 3
     = [\<lparr>content = ''guide one'', metadata = [], distance = 1/10, relevance = 9/10\<rparr>,
        \<lparr>content = ''example one'', metadata = [], distance = 1/5, relevance = 4/5\<rparr>,
        \<lparr>content = ''guide two'', metadata = [], distance = 3/10, relevance = 7/10\<rparr>,
        \<lparr>content = ''example two'', metadata = [], distance = 3/10, relevance = 7/10\<rparr>]"
  by (simp add: multi_collection_search_def store4_guides store4_examples sort_by_relevance_def)

lemma store4_merge_ba:
  "multi_collection_search (mem_client store4) [''ia_examples'', ''ia_guides''] q None 3
     = [\<lparr>content = ''guide one'', metadata = [], distance = 1/10, relevance = 9/10\<rparr>,
        \<lparr>content = ''example one'', metadata = [], distance = 1/5, relevance = 4/5\<rparr>,
        \<lparr>content = ''example two'', metadata = [], distance = 3/10, relevance = 7/10\<rparr>,
        \<lparr>content = ''guide two'', metadata = [], distance = 3/10, relevance = 7/10\<rparr>]"
  by (simp add: multi_collection_search_def store4_guides store4_examples sort_by_relevance_def)

theorem multi_collection_search_order_independent_witness:
  "map relevance (take 3 (multi_collection_search (mem_client store4)
        [''ia_guides'', ''ia_examples''] ''q'' None 3)) = [9/10, 4/5, 7/10]
   \<and> map relevance (take 3 (multi_collection_search (mem_client store4)
        [''ia_examples'', ''ia_guides''] ''q'' None 3)) = [9/10, 4/5, 7/10]
   \<and> map content (take 3 (multi_collection_search (mem_client store4)
        [''ia_guides'', ''ia_examples''] ''q'' None 3)) = [''guide one'', ''example one'', ''guide two'']
   \<and> map content (take 3 (multi_collection_search (mem_client store4)
        [''ia_examples'', ''ia_guides''] ''q'' None 3)) = [''guide one'', ''example one'', ''example two'']"
proof -
  note t = multi_collection_search_order_independent
    [of "mem_client store4" "[''ia_guides'', ''ia_examples'']" "''q''" None 3 "7/10"
        "''ia_guides''" "''ia_examples''" 3]
  have ba: "map relevance (take 3 (multi_collection_search (mem_client store4)
        [''ia_examples'', ''ia_guides''] ''q'' None 3)) = [9/10, 4/5, 7/10]"
    by (simp add: store4_merge_ba)
  with t [THEN conjunct2, THEN conjunct2, THEN conjunct2, THEN conjunct1]
  have ab: "map relevance (take 3 (multi_collection_search (mem_client store4)
        [''ia_guides'', ''ia_examples''] ''q'' None 3)) = [9/10, 4/5, 7/10]"
    by (simp only:)
  have c1: "map content (take 3 (multi_collection_search (mem_client store4)
        [''ia_guides'', ''ia_examples''] ''q'' None 3)) = [''guide one'', ''example one'', ''guide two'']"
    by (simp add: store4_merge_ab)
  have c2: "map content (take 3 (multi_collection_search (mem_client store4)
        [''ia_examples'', ''ia_guides''] ''q'' None 3)) = [''guide one'', ''example one'', ''example two'']"
    by (simp add: store4_merge_ba)
  from ab ba c1 c2 show ?thesis by (simp only: simp_thms)
qed

text \<open>
  C3. The tool is called with \<open>n_results = 5\<close> and no document type on a store whose
  five collections hold two documents each: the merge returns all ten documents, and
  all ten are formatted. The orchestrator's own path formats at most five.
\<close>
theorem retrieve_context_returns_ten:
  "(case retrieve_context_results (mem_client store3) ''q'' None None None 5 of
      Inl e \<Rightarrow> 0 | Inr results \<Rightarrow> length results) = 10
   \<and> length (multi_collection_search (mem_client store3)
         (map snd DOC_TYPE_TO_COLLECTION) ''q'' (Some []) 2) = 10"
  by (simp add: retrieve_context_results_def tool_filter_def opt_truthy_def Let_def
      multi_collection_search_def sort_by_relevance_def DOC_TYPE_TO_COLLECTION_def
      eval_retrieve store3_def)







lemma contribution_failed:
  "retrieve_documents cl c q mf n = Inl e \<Longrightarrow> contribution cl q mf n c = []"
  by (simp add: contribution_def)

lemma contribution_succeeded:
  "retrieve_documents cl c q mf n = Inr ds \<Longrightarrow> contribution cl q mf n c = ds"
  by (simp add: contribution_def)

lemma sort_by_relevance_Nil: "sort_by_relevance [] = []"
  by (simp add: sort_by_relevance_def)

lemma set_sort_by_relevance: "set (sort_by_relevance xs) = set xs"
  by (simp add: sort_by_relevance_def)

lemma sort_by_relevance_eq_Nil: "(sort_by_relevance xs = []) = (xs = [])"
  by (metis set_sort_by_relevance set_empty)

lemma multi_collection_search_skip:
  assumes "retrieve_documents cl c q mf n = Inl e"
  shows "multi_collection_search cl (cs1 @ c # cs2) q mf n
           = multi_collection_search cl (cs1 @ cs2) q mf n"
  using assms by (simp add: multi_collection_search_concat contribution_failed)

lemma multi_collection_search_keeps:
  assumes "retrieve_documents cl c q mf n = Inr ds" "c \<in> set cs"
  shows "set ds \<subseteq> set (multi_collection_search cl cs q mf n)"
proof -
  from assms have "set ds \<subseteq> set (concat (map (contribution cl q mf n) cs))"
    by (auto simp: contribution_def intro!: bexI [of _ c])
  then show ?thesis
    by (simp add: multi_collection_search_concat set_sort_by_relevance)
qed

lemma contributions_all_failed:
  assumes "\<forall>c \<in> set cs. \<exists>e. retrieve_documents cl c q mf n = Inl e"
  shows "concat (map (contribution cl q mf n) cs) = []"
  using assms by (auto simp: contribution_def)

lemma multi_collection_search_all_failed:
  assumes "\<forall>c \<in> set cs. \<exists>e. retrieve_documents cl c q mf n = Inl e"
  shows "multi_collection_search cl cs q mf n = []"
  by (simp only: multi_collection_search_concat contributions_all_failed [OF assms]
        sort_by_relevance_Nil)

lemma retrieve_context_multi:
  assumes "\<not> (opt_truthy doc_type \<and> dict_get DOC_TYPE_TO_COLLECTION (the doc_type) \<noteq> None)"
  shows "retrieve_context cl fmt q doc_type subject level k =
     (if multi_collection_search cl (map snd DOC_TYPE_TO_COLLECTION) q
            (Some (tool_filter doc_type subject level)) 2 = []
      then Inr ''No relevant documents found for the query.''
      else format_loop fmt 0
             (multi_collection_search cl (map snd DOC_TYPE_TO_COLLECTION) q
                (Some (tool_filter doc_type subject level)) 2)
             (''RELEVANT CONTEXT:'' @ nl @ nl))"
  using assms
  by (auto simp: retrieve_context_def retrieve_context_results_def Let_def)

lemma MultiAgentSystem_retrieve_context_merge:
  assumes "search_query_of q cls = Inr sq"
  shows "MultiAgentSystem_retrieve_context cl fmt q cls =
     (if concat (map (contribution cl sq
            (if classification_filter cls \<noteq> [] then Some (classification_filter cls) else None) 3)
          (route_collections cls)) = []
      then Inr ''No relevant documents found.''
      else format_loop_no_tools fmt 0
             (take 5 (sort_by_relevance (concat (map (contribution cl sq
                (if classification_filter cls \<noteq> [] then Some (classification_filter cls) else None) 3)
              (route_collections cls))))) [])"
  using assms
  by (simp add: MultiAgentSystem_retrieve_context_def Let_def search_loop_acc)

lemma format_loop_extends:
  "format_loop fmt i docs acc = Inr s \<Longrightarrow> \<exists>t. s = acc @ t"
proof (induction docs arbitrary: i acc)
  case Nil
  then show ?case by simp
next
  case (Cons d docs)
  then show ?case
    by (cases "format_document fmt i d") fastforce+
qed

lemma format_loop_no_tools_extends:
  "format_loop_no_tools fmt i docs acc = Inr s \<Longrightarrow> \<exists>t. s = acc @ t"
proof (induction docs arbitrary: i acc)
  case Nil
  then show ?case by simp
next
  case (Cons d docs)
  then show ?case
    by (cases "format_document_no_tools fmt i d") fastforce+
qed

lemma format_loop_not_sentinel:
  "format_loop fmt 0 docs (''RELEVANT CONTEXT:'' @ nl @ nl)
     \<noteq> Inr ''No relevant documents found for the query.''"
proof
  assume "format_loop fmt 0 docs (''RELEVANT CONTEXT:'' @ nl @ nl)
     = Inr ''No relevant documents found for the query.''"
  from format_loop_extends [OF this] show False by simp
qed

lemma format_loop_no_tools_not_sentinel:
  assumes "docs \<noteq> []"
  shows "format_loop_no_tools fmt 0 docs [] \<noteq> Inr ''No relevant documents found.''"
proof
  assume a: "format_loop_no_tools fmt 0 docs [] = Inr ''No relevant documents found.''"
  from assms obtain d ds where docs: "docs = d # ds" by (cases docs) auto
  show False
  proof (cases "format_document_no_tools fmt 0 d")
    case (Inl e)
    with a docs show False by simp
  next
    case (Inr entry)
    then obtain t where e: "entry = nl @ t"
      by (auto simp: format_document_no_tools_def split: sum.splits)
    from a docs Inr have "format_loop_no_tools fmt 1 ds entry = Inr ''No relevant documents found.''"
      by simp
    from format_loop_no_tools_extends [OF this] e show False
      by (auto simp: nl_def)
  qed
qed

lemma str_of_nat_1: "str_of_nat (Suc 0) = ''1''"
  by (simp add: str_of_nat.simps char_of_def bit_Suc_0_iff)

lemma str_of_nat_2: "str_of_nat (Suc (Suc 0)) = ''2''"
proof -
  have "str_of_nat 2 = ''2''"
    by (simp add: str_of_nat.simps char_of_def bit_Suc_0_iff)
  moreover have "Suc (Suc 0) = 2" by simp
  ultimately show ?thesis by (simp only:)
qed

lemma MultiAgentSystem_retrieve_context_not_sentinel:
  assumes sq: "search_query_of q cls = Inr sq"
    and c: "c \<in> set (route_collections cls)"
    and r: "retrieve_documents cl c sq (if classification_filter cls \<noteq> [] then Some (classification_filter cls) else None) 3 = Inr ds"
    and ds: "ds \<noteq> []"
  shows "MultiAgentSystem_retrieve_context cl fmt q cls \<noteq> Inr ''No relevant documents found.''"
proof -
  let ?all = "concat (map (contribution cl sq (if classification_filter cls \<noteq> [] then Some (classification_filter cls) else None) 3) (route_collections cls))"
  from c r ds have ne: "?all \<noteq> []"
    by (auto simp: contribution_def intro!: bexI [of _ c])
  then have "take 5 (sort_by_relevance ?all) \<noteq> []"
    by (simp add: sort_by_relevance_eq_Nil)
  from format_loop_no_tools_not_sentinel [OF this] ne show ?thesis
    by (simp add: MultiAgentSystem_retrieve_context_merge [OF sq])
qed

lemma retrieve_context_not_sentinel:
  assumes m: "\<not> (opt_truthy doc_type \<and> dict_get DOC_TYPE_TO_COLLECTION (the doc_type) \<noteq> None)"
    and c: "c \<in> set (map snd DOC_TYPE_TO_COLLECTION)"
    and r: "retrieve_documents cl c q (Some (tool_filter doc_type subject level)) 2 = Inr ds"
    and ds: "ds \<noteq> []"
  shows "retrieve_context cl fmt q doc_type subject level k
           \<noteq> Inr ''No relevant documents found for the query.''"
proof -
  from multi_collection_search_keeps [OF r c] ds
  have "multi_collection_search cl (map snd DOC_TYPE_TO_COLLECTION) q
            (Some (tool_filter doc_type subject level)) 2 \<noteq> []"
    by (cases ds) auto
  then show ?thesis
    by (simp only: retrieve_context_multi [OF m] if_False format_loop_not_sentinel
          not_False_eq_True)
qed

text \<open>
  C5. A collection whose retrieval fails (the collection is missing, or its query
  raises) is caught inside the merge loop: it contributes nothing and the loop goes
  on, so the merge is the sorted concatenation of what the successful collections
  returned, and every document of a successful collection is in it. Only when no
  collection yields a document is the result empty; the tool (on its
  multi-collection path) then returns \<open>No relevant documents found for the query.\<close>
  and the orchestrator \<open>No relevant documents found.\<close>, neither of them an error,
  and they return that sentinel in no case where a collection yielded a document.
\<close>

theorem multi_collection_search_skips_failures:
  "search_loop cl cs q mf n acc = acc @ concat (map (contribution cl q mf n) cs)
   \<and> multi_collection_search cl cs q mf n
       = sort_by_relevance (concat (map (contribution cl q mf n) cs))
   \<and> (retrieve_documents cl c q mf n = Inl e \<longrightarrow>
        contribution cl q mf n c = []
        \<and> search_loop cl (cs1 @ c # cs2) q mf n acc = search_loop cl (cs1 @ cs2) q mf n acc
        \<and> multi_collection_search cl (cs1 @ c # cs2) q mf n
            = multi_collection_search cl (cs1 @ cs2) q mf n)
   \<and> (retrieve_documents cl c q mf n = Inr ds \<longrightarrow>
        contribution cl q mf n c = ds
        \<and> search_loop cl (cs1 @ c # cs2) q mf n acc
            = search_loop cl cs1 q mf n acc @ ds @ search_loop cl cs2 q mf n []
        \<and> (c \<in> set cs \<longrightarrow> set ds \<subseteq> set (multi_collection_search cl cs q mf n)))
   \<and> ((\<forall>c' \<in> set cs. \<exists>e'. retrieve_documents cl c' q mf n = Inl e') \<longrightarrow>
        search_loop cl cs q mf n [] = [] \<and> multi_collection_search cl cs q mf n = [])
   \<and> (\<not> (opt_truthy doc_type \<and> dict_get DOC_TYPE_TO_COLLECTION (the doc_type) \<noteq> None) \<longrightarrow>
        retrieve_context cl fmt q doc_type subject level k =
          (if multi_collection_search cl (map snd DOC_TYPE_TO_COLLECTION) q
                (Some (tool_filter doc_type subject level)) 2 = []
           then Inr ''No relevant documents found for the query.''
           else format_loop fmt 0
                  (multi_collection_search cl (map snd DOC_TYPE_TO_COLLECTION) q
                     (Some (tool_filter doc_type subject level)) 2)
                  (''RELEVANT CONTEXT:'' @ nl @ nl)))
   \<and> (\<not> (opt_truthy doc_type \<and> dict_get DOC_TYPE_TO_COLLECTION (the doc_type) \<noteq> None)
       \<and> (\<forall>c' \<in> set (map snd DOC_TYPE_TO_COLLECTION).
             \<exists>e'. retrieve_documents cl c' q (Some (tool_filter doc_type subject level)) 2 = Inl e') \<longrightarrow>
        retrieve_context cl fmt q doc_type subject level k
          = Inr ''No relevant documents found for the query.'')
   \<and> (\<not> (opt_truthy doc_type \<and> dict_get DOC_TYPE_TO_COLLECTION (the doc_type) \<noteq> None)
       \<and> c \<in> set (map snd DOC_TYPE_TO_COLLECTION)
       \<and> retrieve_documents cl c q (Some (tool_filter doc_type subject level)) 2 = Inr ds
       \<and> ds \<noteq> [] \<longrightarrow>
        retrieve_context cl fmt q doc_type subject level k
          \<noteq> Inr ''No relevant documents found for the query.'')
   \<and> (search_query_of q cls = Inr sq \<longrightarrow>
        MultiAgentSystem_retrieve_context cl fmt q cls =
          (if concat (map (contribution cl sq (if classification_filter cls \<noteq> [] then Some (classification_filter cls) else None) 3) (route_collections cls)) = []
           then Inr ''No relevant documents found.''
           else format_loop_no_tools fmt 0
                  (take 5 (sort_by_relevance
                     (concat (map (contribution cl sq (if classification_filter cls \<noteq> [] then Some (classification_filter cls) else None) 3) (route_collections cls))))) []))
   \<and> (search_query_of q cls = Inr sq
       \<and> (\<forall>c' \<in> set (route_collections cls). \<exists>e'. retrieve_documents cl c' sq (if classification_filter cls \<noteq> [] then Some (classification_filter cls) else None) 3 = Inl e') \<longrightarrow>
        MultiAgentSystem_retrieve_context cl fmt q cls = Inr ''No relevant documents found.'')
   \<and> (search_query_of q cls = Inr sq
       \<and> c \<in> set (route_collections cls)
       \<and> retrieve_documents cl c sq (if classification_filter cls \<noteq> [] then Some (classification_filter cls) else None) 3 = Inr ds
       \<and> ds \<noteq> [] \<longrightarrow>
        MultiAgentSystem_retrieve_context cl fmt q cls \<noteq> Inr ''No relevant documents found.'')"
proof -
  have a: "search_loop cl cs q mf n acc = acc @ concat (map (contribution cl q mf n) cs)"
    by (rule search_loop_acc)
  have b: "multi_collection_search cl cs q mf n
       = sort_by_relevance (concat (map (contribution cl q mf n) cs))"
    by (rule multi_collection_search_concat)
  have c: "retrieve_documents cl c q mf n = Inl e \<longrightarrow>
        contribution cl q mf n c = []
        \<and> search_loop cl (cs1 @ c # cs2) q mf n acc = search_loop cl (cs1 @ cs2) q mf n acc
        \<and> multi_collection_search cl (cs1 @ c # cs2) q mf n
            = multi_collection_search cl (cs1 @ cs2) q mf n"
    by (simp add: search_loop_acc multi_collection_search_concat contribution_failed)
  have d: "retrieve_documents cl c q mf n = Inr ds \<longrightarrow>
        contribution cl q mf n c = ds
        \<and> search_loop cl (cs1 @ c # cs2) q mf n acc
            = search_loop cl cs1 q mf n acc @ ds @ search_loop cl cs2 q mf n []
        \<and> (c \<in> set cs \<longrightarrow> set ds \<subseteq> set (multi_collection_search cl cs q mf n))"
    using multi_collection_search_keeps [of cl c q mf n ds cs]
    by (simp add: search_loop_acc contribution_succeeded)
  have e: "(\<forall>c' \<in> set cs. \<exists>e'. retrieve_documents cl c' q mf n = Inl e') \<longrightarrow>
        search_loop cl cs q mf n [] = [] \<and> multi_collection_search cl cs q mf n = []"
    using multi_collection_search_all_failed [of cs cl q mf n]
      contributions_all_failed [of cs cl q mf n]
    unfolding search_loop_acc append_Nil by blast
  have f: "\<not> (opt_truthy doc_type \<and> dict_get DOC_TYPE_TO_COLLECTION (the doc_type) \<noteq> None) \<longrightarrow>
        retrieve_context cl fmt q doc_type subject level k =
          (if multi_collection_search cl (map snd DOC_TYPE_TO_COLLECTION) q
                (Some (tool_filter doc_type subject level)) 2 = []
           then Inr ''No relevant documents found for the query.''
           else format_loop fmt 0
                  (multi_collection_search cl (map snd DOC_TYPE_TO_COLLECTION) q
                     (Some (tool_filter doc_type subject level)) 2)
                  (''RELEVANT CONTEXT:'' @ nl @ nl))"
    using retrieve_context_multi by blast
  have g: "\<not> (opt_truthy doc_type \<and> dict_get DOC_TYPE_TO_COLLECTION (the doc_type) \<noteq> None)
       \<and> (\<forall>c' \<in> set (map snd DOC_TYPE_TO_COLLECTION).
             \<exists>e'. retrieve_documents cl c' q (Some (tool_filter doc_type subject level)) 2 = Inl e') \<longrightarrow>
        retrieve_context cl fmt q doc_type subject level k
          = Inr ''No relevant documents found for the query.''"
  proof
    assume h: "\<not> (opt_truthy doc_type \<and> dict_get DOC_TYPE_TO_COLLECTION (the doc_type) \<noteq> None)
       \<and> (\<forall>c' \<in> set (map snd DOC_TYPE_TO_COLLECTION).
             \<exists>e'. retrieve_documents cl c' q (Some (tool_filter doc_type subject level)) 2 = Inl e')"
    then have m: "\<not> (opt_truthy doc_type \<and> dict_get DOC_TYPE_TO_COLLECTION (the doc_type) \<noteq> None)"
      and af: "\<forall>c' \<in> set (map snd DOC_TYPE_TO_COLLECTION).
             \<exists>e'. retrieve_documents cl c' q (Some (tool_filter doc_type subject level)) 2 = Inl e'"
      by blast+
    show "retrieve_context cl fmt q doc_type subject level k
          = Inr ''No relevant documents found for the query.''"
      by (simp add: retrieve_context_multi [OF m] multi_collection_search_all_failed [OF af])
  qed
  have h: "\<not> (opt_truthy doc_type \<and> dict_get DOC_TYPE_TO_COLLECTION (the doc_type) \<noteq> None)
       \<and> c \<in> set (map snd DOC_TYPE_TO_COLLECTION)
       \<and> retrieve_documents cl c q (Some (tool_filter doc_type subject level)) 2 = Inr ds
       \<and> ds \<noteq> [] \<longrightarrow>
        retrieve_context cl fmt q doc_type subject level k
          \<noteq> Inr ''No relevant documents found for the query.''"
    using retrieve_context_not_sentinel by blast
  have i: "search_query_of q cls = Inr sq \<longrightarrow>
        MultiAgentSystem_retrieve_context cl fmt q cls =
          (if concat (map (contribution cl sq (if classification_filter cls \<noteq> [] then Some (classification_filter cls) else None) 3) (route_collections cls)) = []
           then Inr ''No relevant documents found.''
           else format_loop_no_tools fmt 0
                  (take 5 (sort_by_relevance
                     (concat (map (contribution cl sq (if classification_filter cls \<noteq> [] then Some (classification_filter cls) else None) 3) (route_collections cls))))) [])"
    using MultiAgentSystem_retrieve_context_merge by blast
  have j: "search_query_of q cls = Inr sq
       \<and> (\<forall>c' \<in> set (route_collections cls). \<exists>e'. retrieve_documents cl c' sq (if classification_filter cls \<noteq> [] then Some (classification_filter cls) else None) 3 = Inl e') \<longrightarrow>
        MultiAgentSystem_retrieve_context cl fmt q cls = Inr ''No relevant documents found.''"
  proof
    assume h: "search_query_of q cls = Inr sq
       \<and> (\<forall>c' \<in> set (route_collections cls). \<exists>e'. retrieve_documents cl c' sq (if classification_filter cls \<noteq> [] then Some (classification_filter cls) else None) 3 = Inl e')"
    then have sq: "search_query_of q cls = Inr sq"
      and af: "\<forall>c' \<in> set (route_collections cls). \<exists>e'. retrieve_documents cl c' sq (if classification_filter cls \<noteq> [] then Some (classification_filter cls) else None) 3 = Inl e'"
      by blast+
    show "MultiAgentSystem_retrieve_context cl fmt q cls = Inr ''No relevant documents found.''"
      by (simp add: MultiAgentSystem_retrieve_context_merge [OF sq]
            contributions_all_failed [OF af])
  qed
  have k: "search_query_of q cls = Inr sq
       \<and> c \<in> set (route_collections cls)
       \<and> retrieve_documents cl c sq (if classification_filter cls \<noteq> [] then Some (classification_filter cls) else None) 3 = Inr ds
       \<and> ds \<noteq> [] \<longrightarrow>
        MultiAgentSystem_retrieve_context cl fmt q cls \<noteq> Inr ''No relevant documents found.''"
    using MultiAgentSystem_retrieve_context_not_sentinel by blast
  show ?thesis
    by (intro conjI a b c d e f g h i j k)
qed

theorem multi_collection_search_skips_failures_witness:
  "multi_collection_search (mem_client store5) [''ia_guides'', ''ia_examples''] ''write'' None 3
     = [\<lparr>content = ''example one'', metadata = [], distance = 2/5, relevance = 3/5\<rparr>,
        \<lparr>content = ''example two'', metadata = [], distance = 1/2, relevance = 1/2\<rparr>]
   \<and> MultiAgentSystem_retrieve_context (mem_client store5) fmt5 ''q'' classification5
       = Inr (nl @ ''[Document 1]'' @ nl @ ''Content: example one'' @ nl @ ''Relevance: 0.60'' @ nl
              @ nl @ ''[Document 2]'' @ nl @ ''Content: example two'' @ nl @ ''Relevance: 0.50'' @ nl)
   \<and> MultiAgentSystem_retrieve_context (mem_client store5) fmt5 ''q'' classification5
       \<noteq> Inr ''No relevant documents found.''
   \<and> retrieve_context (mem_client store5) fmt5 ''q'' None None None 5
       = Inr (''RELEVANT CONTEXT:'' @ nl @ nl
              @ ''[Document 1]'' @ nl @ ''Content: example one'' @ nl @ ''Relevance: 0.60'' @ nl @ nl
              @ ''[Document 2]'' @ nl @ ''Content: example two'' @ nl @ ''Relevance: 0.50'' @ nl @ nl)
   \<and> MultiAgentSystem_retrieve_context qfail_client fmt5 ''q'' classification5
       = Inr ''No relevant documents found.''
   \<and> retrieve_context qfail_client fmt5 ''q'' None None None 5
       = Inr ''No relevant documents found for the query.''"
proof -
  let ?ds = "[\<lparr>content = ''example one'', metadata = [], distance = 2/5, relevance = 3/5\<rparr>,
              \<lparr>content = ''example two'', metadata = [], distance = 1/2, relevance = 1/2\<rparr>]"
  have s: "search_query_of ''q'' classification5 = Inr ''write''"
    by (simp add: search_query_of_def classification5_def dict_get_def)
  have cf: "classification_filter classification5 = []"
    by (simp add: classification_filter_def classification5_def get_truthy_def dict_get_def)
  have rc: "route_collections classification5 = [''ia_guides'', ''ia_examples'']"
    by (simp add: route_collections_def get_query_type_def classification5_def dict_get_def
          COLLECTIONS_def)
  have tf: "tool_filter None None None = []"
    by (simp add: tool_filter_def opt_truthy_def)
  have five: "map snd DOC_TYPE_TO_COLLECTION
                = [''ia_guides'', ''ia_examples'', ''mark_schemes'', ''syllabus'', ''ib_general'']"
    by (simp add: DOC_TYPE_TO_COLLECTION_def)
  have n: "\<not> (opt_truthy None \<and> dict_get DOC_TYPE_TO_COLLECTION (the None) \<noteq> None)"
    by (simp add: opt_truthy_def)
  have g: "retrieve_documents (mem_client store5) ''ia_guides'' ''write'' None 3
             = Inl (StoreError ''ia_guides'')"
    by (simp add: eval_retrieve store5_def)
  have x: "retrieve_documents (mem_client store5) ''ia_examples'' ''write'' None 3 = Inr ?ds"
    by (simp add: eval_retrieve store5_def)
  have x2: "retrieve_documents (mem_client store5) ''ia_examples'' ''q'' (Some []) 2 = Inr ?ds"
    by (simp add: eval_retrieve store5_def)
  have o2:
    "retrieve_documents (mem_client store5) ''ia_guides'' ''q'' (Some []) 2
       = Inl (StoreError ''ia_guides'')"
    "retrieve_documents (mem_client store5) ''mark_schemes'' ''q'' (Some []) 2
       = Inl (StoreError ''mark_schemes'')"
    "retrieve_documents (mem_client store5) ''syllabus'' ''q'' (Some []) 2
       = Inl (StoreError ''syllabus'')"
    "retrieve_documents (mem_client store5) ''ib_general'' ''q'' (Some []) 2
       = Inl (StoreError ''ib_general'')"
    by (simp_all add: eval_retrieve store5_def)
  have cc: "concat (map (contribution (mem_client store5) ''q'' (Some []) 2)
              [''ia_guides'', ''ia_examples'', ''mark_schemes'', ''syllabus'', ''ib_general'']) = ?ds"
    by (simp add: contribution_def x2 o2)
  have srt: "sort_by_relevance ?ds = ?ds"
    by (simp add: sort_by_relevance_def)
  have m5: "multi_collection_search (mem_client store5) (map snd DOC_TYPE_TO_COLLECTION) ''q''
              (Some (tool_filter None None None)) 2 = ?ds"
    by (simp only: tf five multi_collection_search_concat cc srt)
  have fl: "format_loop fmt5 0 ?ds (''RELEVANT CONTEXT:'' @ nl @ nl)
       = Inr (''RELEVANT CONTEXT:'' @ nl @ nl
              @ ''[Document 1]'' @ nl @ ''Content: example one'' @ nl @ ''Relevance: 0.60'' @ nl @ nl
              @ ''[Document 2]'' @ nl @ ''Content: example two'' @ nl @ ''Relevance: 0.50'' @ nl @ nl)"
    by (simp add: format_document_def truncate_content_def str_of_nat_1 str_of_nat_2 fmt5_def)
  have qf: "\<forall>c q mf n. \<exists>e. retrieve_documents qfail_client c q mf n = Inl e"
    by (simp add: retrieve_documents_def get_collection_def query_collection_def qfail_client_def)
  note t = multi_collection_search_skips_failures
    [where cl = "mem_client store5" and cs = "[''ia_guides'', ''ia_examples'']"
       and q = "''write''" and mf = None and n = 3]
  note u = multi_collection_search_skips_failures
    [where cl = "mem_client store5" and q = "''q''" and cls = classification5
       and sq = "''write''" and fmt = fmt5 and c = "''ia_examples''" and ds = "?ds"
       and doc_type = None and subject = None and level = None and k = 5]
  note v = multi_collection_search_skips_failures
    [where cl = qfail_client and q = "''q''" and cls = classification5
       and sq = "''write''" and fmt = fmt5
       and doc_type = None and subject = None and level = None and k = 5]
  from t have "multi_collection_search (mem_client store5) [''ia_guides'', ''ia_examples''] ''write'' None 3
       = sort_by_relevance (concat (map (contribution (mem_client store5) ''write'' None 3)
           [''ia_guides'', ''ia_examples'']))"
    by blast
  then have 1: "multi_collection_search (mem_client store5) [''ia_guides'', ''ia_examples''] ''write'' None 3
       = ?ds"
    by (simp add: contribution_def g x srt)
  from u s have "MultiAgentSystem_retrieve_context (mem_client store5) fmt5 ''q'' classification5 =
          (if concat (map (contribution (mem_client store5) ''write''
                 (if classification_filter classification5 \<noteq> []
                  then Some (classification_filter classification5) else None) 3)
               (route_collections classification5)) = []
           then Inr ''No relevant documents found.''
           else format_loop_no_tools fmt5 0
                  (take 5 (sort_by_relevance
                     (concat (map (contribution (mem_client store5) ''write''
                        (if classification_filter classification5 \<noteq> []
                         then Some (classification_filter classification5) else None) 3)
                      (route_collections classification5))))) [])"
    by blast
  then have 2: "MultiAgentSystem_retrieve_context (mem_client store5) fmt5 ''q'' classification5
       = Inr (nl @ ''[Document 1]'' @ nl @ ''Content: example one'' @ nl @ ''Relevance: 0.60'' @ nl
              @ nl @ ''[Document 2]'' @ nl @ ''Content: example two'' @ nl @ ''Relevance: 0.50'' @ nl)"
    by (simp add: cf rc contribution_def g x srt format_document_no_tools_def
          truncate_content_def str_of_nat_1 str_of_nat_2 fmt5_def)
  have xc: "retrieve_documents (mem_client store5) ''ia_examples'' ''write''
              (if classification_filter classification5 \<noteq> []
               then Some (classification_filter classification5) else None) 3 = Inr ?ds"
    by (simp add: cf x)
  have mem: "''ia_examples'' \<in> set (route_collections classification5)"
    by (simp add: rc)
  from u s xc mem have 3: "MultiAgentSystem_retrieve_context (mem_client store5) fmt5 ''q'' classification5
       \<noteq> Inr ''No relevant documents found.''"
    by blast
  from u n have "retrieve_context (mem_client store5) fmt5 ''q'' None None None 5 =
          (if multi_collection_search (mem_client store5) (map snd DOC_TYPE_TO_COLLECTION) ''q''
                (Some (tool_filter None None None)) 2 = []
           then Inr ''No relevant documents found for the query.''
           else format_loop fmt5 0
                  (multi_collection_search (mem_client store5) (map snd DOC_TYPE_TO_COLLECTION) ''q''
                     (Some (tool_filter None None None)) 2)
                  (''RELEVANT CONTEXT:'' @ nl @ nl))"
    by blast
  then have 4: "retrieve_context (mem_client store5) fmt5 ''q'' None None None 5
       = Inr (''RELEVANT CONTEXT:'' @ nl @ nl
              @ ''[Document 1]'' @ nl @ ''Content: example one'' @ nl @ ''Relevance: 0.60'' @ nl @ nl
              @ ''[Document 2]'' @ nl @ ''Content: example two'' @ nl @ ''Relevance: 0.50'' @ nl @ nl)"
    by (simp only: m5 fl) simp
  have af5: "\<forall>c' \<in> set (route_collections classification5).
               \<exists>e'. retrieve_documents qfail_client c' ''write''
                  (if classification_filter classification5 \<noteq> []
                   then Some (classification_filter classification5) else None) 3 = Inl e'"
    using qf by blast
  have af6: "\<forall>c' \<in> set (map snd DOC_TYPE_TO_COLLECTION).
               \<exists>e'. retrieve_documents qfail_client c' ''q''
                  (Some (tool_filter None None None)) 2 = Inl e'"
    using qf by blast
  note vj = v [THEN conjunct2, THEN conjunct2, THEN conjunct2, THEN conjunct2, THEN conjunct2, THEN conjunct2, THEN conjunct2, THEN conjunct2, THEN conjunct2, THEN conjunct1]
  note vg = v [THEN conjunct2, THEN conjunct2, THEN conjunct2, THEN conjunct2, THEN conjunct2, THEN conjunct2, THEN conjunct1]
  from vj s af5 have 5: "MultiAgentSystem_retrieve_context qfail_client fmt5 ''q'' classification5
       = Inr ''No relevant documents found.''"
    by (simp only: simp_thms)
  from vg n af6 have 6: "retrieve_context qfail_client fmt5 ''q'' None None None 5
       = Inr ''No relevant documents found for the query.''"
    by (simp only: simp_thms)
  from 1 2 3 4 5 6 show ?thesis by (simp only: simp_thms)
qed













end
